theory Spec2Isabelle
  imports Complex_Main "HOL-Library.Word"
begin

section \<open>Data model\<close>

text \<open>
  The host side of the position based fluids simulator (Simulation.cpp, Simulation.h,
  AABB.h). Conventions of the embedding:
  \<^item> a C++ \<open>float\<close> is a real number: arithmetic is exact, rounding, infinities and NaN
    are not modelled;
  \<^item> an \<open>unsigned int\<close> is a \<open>32 word\<close>, so \<open>++\<close> and \<open>%\<close> are the machine operations;
  \<^item> an \<open>int\<close> is an \<open>int\<close> of HOL; where the code computes one (the cell count) the
    result is wrapped to 32 bits;
  \<^item> the OpenCL device is seen through the commands the host issues to it, in the order
    of issue; what the kernels of kernels/Simulation.cl compute is not part of the model;
  \<^item> the rendering members (mesh, shader, vertex buffer) are left out.
\<close>

text \<open>\<open>ofVec3f\<close> and the \<open>x\<close>, \<open>y\<close>, \<open>z\<close> lanes of a \<open>float4\<close>.\<close>

record ofVec3f =
  vx :: real
  vy :: real
  vz :: real

text \<open>Modelled from the spec: AABB.cpp is not among the sources, only the declarations
  of AABB.h. The box is its min and its max corner (\<open>minV\<close>, \<open>maxV\<close>); \<open>getMinExtent\<close>
  and \<open>getMaxExtent\<close>, declared as returning references, read the corner and, assigned
  through, update it.\<close>

record AABB =
  minV :: ofVec3f
  maxV :: ofVec3f

text \<open>Simulation.h, \<open>Particle\<close>. The fourth lane of each \<open>float4\<close> is never written by
  the host and is left out.\<close>

record Particle =
  pos :: ofVec3f
  posStar :: ofVec3f
  vel :: ofVec3f

datatype AnimationType = SINE_WAVE | LINEAR_RAMP | COMPRESS

text \<open>Modelled from the spec: Parameters.h is not among the sources. The particle radius
  is one of the simulation parameters, and the only one the host code reads.\<close>

record Parameters =
  particleRadius :: real

text \<open>Constants.h is not among the sources; the constants the host code uses are taken
  as parameters.\<close>

record Constants =
  SOLVER_ITERATIONS :: int
  DEFAULT_DT :: real

text \<open>What the host asks of the device: binding a bounds vector to a kernel argument,
  running a kernel over a one-dimensional range, the prefix sum of the cell histogram,
  waiting for the queue, and (coarsely) the allocation, binding and upload done at
  initialisation and reset.\<close>

datatype Command =
    SetArg string nat ofVec3f
  | Run1D string int
  | Scan int
  | Finish
  | InitBuffers int int
  | SetupKernels bool
  | WriteBuffer string

text \<open>The random numbers behind \<open>ofRandom\<close> are a parameter of the model: the unit
  sample (a number from 0 up to, but not including, 1) behind the \<open>k\<close>-th call made so
  far.\<close>

type_synonym RandomSource = "nat \<Rightarrow> real"

text \<open>The members of class \<open>Simulation\<close>; \<open>openCL\<close> holds the commands issued so far
  (oldest first) and \<open>randomCalls\<close> the number of \<open>ofRandom\<close> calls made so far.\<close>

record Simulation =
  frameNumber :: "32 word"
  numCells :: int
  doDrawGrid :: bool
  doVisualDebugging :: bool
  animBounds :: bool
  animFrameNumber :: "32 word"
  animType :: AnimationType
  animPeriod :: real
  animAmp :: real
  animBothSides :: bool
  originalBounds :: AABB
  bounds :: AABB
  dt :: real
  cellsPerAxis :: ofVec3f
  numParticles :: int
  parameters :: Parameters
  particles :: "Particle list"
  openCL :: "Command list"
  randomCalls :: nat

section \<open>Operations\<close>

subsection \<open>Helpers\<close>

text \<open>\<open>static_cast<int>\<close> of a float: truncation towards zero. Outside the range of
  \<open>int\<close> the conversion is undefined in C++; the model takes what the conversion
  instruction of x86-64 yields there, the least \<open>int\<close>.\<close>

definition castInt :: "real \<Rightarrow> int" where
  "castInt r =
     (let n = (if 0 \<le> r then \<lfloor>r\<rfloor> else \<lceil>r\<rceil>)
      in if - 2147483648 \<le> n \<and> n \<le> 2147483647 then n else - 2147483648)"

text \<open>The value a 32-bit \<open>int\<close> holds after an arithmetic result \<open>n\<close>: two's complement
  wrap-around (what the overflowing multiplication gives in practice).\<close>

definition wrapInt :: "int \<Rightarrow> int" where
  "wrapInt n = (n + 2147483648) mod 4294967296 - 2147483648"

text \<open>Modelled from the spec: \<open>ofRandom\<close> belongs to openFrameworks and is not among the
  sources. A draw is uniform between the two arguments: the image of the unit sample
  \<open>u\<close> under the affine map from the smaller argument (at 0) to the larger (at 1).\<close>

definition ofRandom :: "real \<Rightarrow> real \<Rightarrow> real \<Rightarrow> real" where
  "ofRandom u x y = min x y + (max x y - min x y) * u"

text \<open>\<open>ofDegToRad\<close> belongs to openFrameworks: degrees times \<open>pi / 180\<close>.\<close>

definition ofDegToRad :: "real \<Rightarrow> real" where
  "ofDegToRad degrees = degrees * (pi / 180)"

text \<open>Appending commands to the device queue.\<close>

definition issue :: "Command list \<Rightarrow> Simulation \<Rightarrow> Simulation" where
  "issue cs s = s\<lparr>openCL := openCL s @ cs\<rparr>"

text \<open>The assignments \<open>bounds.getMaxExtent().x = v\<close> and \<open>bounds.getMinExtent().x = v\<close>.\<close>

definition setMaxX :: "real \<Rightarrow> Simulation \<Rightarrow> Simulation" where
  "setMaxX v s = s\<lparr>bounds := (bounds s)\<lparr>maxV := (maxV (bounds s))\<lparr>vx := v\<rparr>\<rparr>\<rparr>"

definition setMinX :: "real \<Rightarrow> Simulation \<Rightarrow> Simulation" where
  "setMinX v s = s\<lparr>bounds := (bounds s)\<lparr>minV := (minV (bounds s))\<lparr>vx := v\<rparr>\<rparr>\<rparr>"

subsection \<open>Initialisation\<close>

text \<open>The body of the loop of \<open>initializeBuffers\<close> for one particle; \<open>k\<close> is the number
  of \<open>ofRandom\<close> calls made before it.\<close>

definition initParticle :: "RandomSource \<Rightarrow> ofVec3f \<Rightarrow> ofVec3f \<Rightarrow> real \<Rightarrow> nat \<Rightarrow> Particle" where
  "initParticle rnd p1 p2 radius k =
     \<lparr>pos = \<lparr>vx = ofRandom (rnd k) (vx p1 + radius) (vx p2 - radius),
             vy = ofRandom (rnd (k + 1)) (vy p1 + radius) (0.25 * (vy p2 - radius)),
             vz = ofRandom (rnd (k + 2)) (vz p1 + radius) (vz p2 - radius)\<rparr>,
      posStar = \<lparr>vx = 0, vy = 0, vz = 0\<rparr>,
      vel = \<lparr>vx = 0, vy = 0, vz = 0\<rparr>\<rparr>"

text \<open>The cell count of \<open>initializeBuffers\<close>: the product of the three cell counts per
  axis, each converted to \<open>int\<close>, in 32-bit arithmetic.\<close>

definition cellCount :: "ofVec3f \<Rightarrow> int" where
  "cellCount c = wrapInt (wrapInt (castInt (vx c) * castInt (vy c)) * castInt (vz c))"

text \<open>\<open>Simulation::initializeBuffers\<close>: the cell count, the buffers, and the loop
  \<open>for (int i = 0; i < numParticles; i++)\<close>, which makes three draws per particle.\<close>

definition initializeBuffers :: "RandomSource \<Rightarrow> Simulation \<Rightarrow> Simulation" where
  "initializeBuffers rnd s =
     (let p1 = minV (bounds s);
          p2 = maxV (bounds s);
          cells = cellCount (cellsPerAxis s);
          radius = particleRadius (parameters s);
          n = nat (numParticles s);
          k = randomCalls s
      in s\<lparr>numCells := cells,
           particles := map (\<lambda>i. initParticle rnd p1 p2 radius (k + 3 * i)) [0..<n],
           randomCalls := k + 3 * n,
           openCL := openCL s @ [InitBuffers (numParticles s) cells]\<rparr>)"

definition setupKernels :: "bool \<Rightarrow> Simulation \<Rightarrow> Simulation" where
  "setupKernels load s = issue [SetupKernels load] s"

definition writeToGPU :: "Simulation \<Rightarrow> Simulation" where
  "writeToGPU s =
     issue [WriteBuffer ''parameterBuffer'', WriteBuffer ''particles'', WriteBuffer ''renderPos''] s"

text \<open>\<open>Simulation::initialize\<close> (\<open>initializeOpenGL\<close> only touches rendering members).\<close>

definition initialize :: "RandomSource \<Rightarrow> Simulation \<Rightarrow> Simulation" where
  "initialize rnd s = writeToGPU (setupKernels True (initializeBuffers rnd s))"

text \<open>The member initialisers shared by the two constructors. \<open>numCells\<close> has no
  initialiser in the source; \<open>initializeBuffers\<close> assigns it before anything reads it.\<close>

definition members :: "AABB \<Rightarrow> int \<Rightarrow> real \<Rightarrow> ofVec3f \<Rightarrow> Parameters \<Rightarrow> Simulation" where
  "members b n d c p =
     \<lparr>frameNumber = 0, numCells = 0, doDrawGrid = False, doVisualDebugging = False,
      animBounds = False, animFrameNumber = 0, animType = SINE_WAVE, animPeriod = 1,
      animAmp = 10, animBothSides = False, originalBounds = b, bounds = b, dt = d,
      cellsPerAxis = c, numParticles = n, parameters = p, particles = [], openCL = [],
      randomCalls = 0\<rparr>"

text \<open>The constructor with four arguments (device, bounds, particle count, parameters):
  the time step is \<open>DEFAULT_DT\<close> and the cells per axis are what
  \<open>findIdealParticleCount\<close> returns. That value comes out of float divisions, \<open>ceil\<close>
  and conversions to \<open>int\<close>, which are not modelled: it is the argument \<open>c\<close>.\<close>

definition newSimulation4 ::
  "Constants \<Rightarrow> RandomSource \<Rightarrow> ofVec3f \<Rightarrow> AABB \<Rightarrow> int \<Rightarrow> Parameters \<Rightarrow> Simulation" where
  "newSimulation4 C rnd c b n p = initialize rnd (members b n (DEFAULT_DT C) c p)"

text \<open>The constructor with six arguments (device, bounds, particle count, time step,
  cells per axis, parameters).\<close>

definition newSimulation6 ::
  "RandomSource \<Rightarrow> AABB \<Rightarrow> int \<Rightarrow> real \<Rightarrow> ofVec3f \<Rightarrow> Parameters \<Rightarrow> Simulation" where
  "newSimulation6 rnd b n d c p = initialize rnd (members b n d c p)"

subsection \<open>Accessors declared in Simulation.h\<close>

definition getFrameNumber :: "Simulation \<Rightarrow> 32 word" where
  "getFrameNumber s = frameNumber s"

definition getBounds :: "Simulation \<Rightarrow> AABB" where
  "getBounds s = bounds s"

definition setBounds :: "AABB \<Rightarrow> Simulation \<Rightarrow> Simulation" where
  "setBounds b s = s\<lparr>bounds := b\<rparr>"

definition setParameters :: "Parameters \<Rightarrow> Simulation \<Rightarrow> Simulation" where
  "setParameters p s = issue [WriteBuffer ''parameterBuffer''] (s\<lparr>parameters := p\<rparr>)"

subsection \<open>Bounds animation and reset\<close>

definition resetBounds :: "Simulation \<Rightarrow> Simulation" where
  "resetBounds s = s\<lparr>animFrameNumber := 0, bounds := originalBounds s\<rparr>"

definition reset :: "RandomSource \<Rightarrow> Simulation \<Rightarrow> Simulation" where
  "reset rnd s =
     writeToGPU (resetBounds (setupKernels False (initializeBuffers rnd (s\<lparr>frameNumber := 0\<rparr>))))"

text \<open>The values of the sine and the ramp branch of \<open>stepBoundsAnimation\<close>, in exact
  arithmetic. The code computes them in single precision, so its ramp value departs
  from \<open>rampValue\<close> once the frame counter passes \<open>2 ^ 24\<close>; no property below is about
  the ramp value.\<close>

definition sineValue :: "real \<Rightarrow> real \<Rightarrow> 32 word \<Rightarrow> real" where
  "sineValue amp period frame =
     (let theta = ofDegToRad (real (unat (frame mod 720)))
      in amp * sin (period * pi * theta))"

definition rampValue :: "real \<Rightarrow> real \<Rightarrow> real \<Rightarrow> 32 word \<Rightarrow> real" where
  "rampValue amp period d frame =
     (let t = real (unat frame);
          tPeriod = (t / period) * d
      in 2 * amp * (tPeriod - real_of_int \<lfloor>0.5 + tPeriod\<rfloor>))"

definition animateWave :: "real \<Rightarrow> Simulation \<Rightarrow> Simulation" where
  "animateWave v s =
     (let origMinX = vx (minV (originalBounds s));
          origMaxX = vx (maxV (originalBounds s));
          s1 = setMaxX (origMaxX - v) s
      in if animBothSides s then setMinX (origMinX + v) s1 else s1)"

text \<open>The locals \<open>limitMinX\<close> and \<open>limitMaxX\<close> of \<open>stepBoundsAnimation\<close>, computed from
  the original bounds.\<close>

definition limitMinX :: "AABB \<Rightarrow> real" where
  "limitMinX ob =
     (let origMinX = vx (minV ob);
          origMaxX = vx (maxV ob);
          width = origMaxX - origMinX;
          limit = width * 0.66;
          halfLimit = limit * 0.5
      in origMinX + halfLimit)"

definition limitMaxX :: "AABB \<Rightarrow> real" where
  "limitMaxX ob =
     (let origMinX = vx (minV ob);
          origMaxX = vx (maxV ob);
          width = origMaxX - origMinX;
          limit = width * 0.66;
          halfLimit = limit * 0.5
      in origMaxX - halfLimit)"

definition compress :: "Simulation \<Rightarrow> Simulation" where
  "compress s =
     (let s1 = (if limitMaxX (originalBounds s) \<le> vx (maxV (bounds s))
                then setMaxX (vx (maxV (bounds s)) - 0.25) s else s)
      in if animBothSides s1 \<and> vx (minV (bounds s1)) \<le> limitMinX (originalBounds s1)
         then setMinX (vx (minV (bounds s1)) + 0.25) s1 else s1)"

text \<open>\<open>Simulation::stepBoundsAnimation\<close>.\<close>

definition stepBoundsAnimation :: "Simulation \<Rightarrow> Simulation" where
  "stepBoundsAnimation s =
     (let s1 = (if animType s = SINE_WAVE
                  then animateWave (sineValue (animAmp s) (animPeriod s) (animFrameNumber s)) s
                else if animType s = LINEAR_RAMP
                  then animateWave (rampValue (animAmp s) (animPeriod s) (dt s) (animFrameNumber s)) s
                else if animType s = COMPRESS
                  then compress s
                else s)
      in s1\<lparr>animFrameNumber := animFrameNumber s1 + 1\<rparr>)"

subsection \<open>One simulation step\<close>

definition resetQuantities :: "Simulation \<Rightarrow> Simulation" where
  "resetQuantities s =
     issue [Run1D ''resetParticleQuantities'' (numParticles s),
            Run1D ''resetCellQuantities'' (numCells s)] s"

definition predictPositions :: "Simulation \<Rightarrow> Simulation" where
  "predictPositions s = issue [Run1D ''predictPosition'' (numParticles s)] s"

definition discretizeParticlePositions :: "Simulation \<Rightarrow> Simulation" where
  "discretizeParticlePositions s =
     issue [SetArg ''discretizeParticlePositions'' 6 (minV (bounds s)),
            SetArg ''discretizeParticlePositions'' 7 (maxV (bounds s)),
            Run1D ''discretizeParticlePositions'' (numParticles s)] s"

definition sortParticlesByCell :: "Simulation \<Rightarrow> Simulation" where
  "sortParticlesByCell s =
     issue [Scan (numCells s),
            Run1D ''countSortParticlesByCell'' (numParticles s),
            Run1D ''findParticleBins'' (numParticles s)] s"

definition findNeighboringParticles :: "Simulation \<Rightarrow> Simulation" where
  "findNeighboringParticles s = sortParticlesByCell (discretizeParticlePositions s)"

definition calculateDensity :: "Simulation \<Rightarrow> Simulation" where
  "calculateDensity s =
     issue [SetArg ''estimateDensity'' 8 (minV (bounds s)),
            SetArg ''estimateDensity'' 9 (maxV (bounds s)),
            Run1D ''estimateDensity'' (numParticles s)] s"

definition calculatePositionDelta :: "Simulation \<Rightarrow> Simulation" where
  "calculatePositionDelta s =
     issue [SetArg ''computeLambda'' 9 (minV (bounds s)),
            SetArg ''computeLambda'' 10 (maxV (bounds s)),
            Run1D ''computeLambda'' (numParticles s),
            SetArg ''computePositionDelta'' 9 (minV (bounds s)),
            SetArg ''computePositionDelta'' 10 (maxV (bounds s)),
            Run1D ''computePositionDelta'' (numParticles s)] s"

definition updatePositionDelta :: "Simulation \<Rightarrow> Simulation" where
  "updatePositionDelta s = issue [Run1D ''updatePositionDelta'' (numParticles s)] s"

definition updatePosition :: "Simulation \<Rightarrow> Simulation" where
  "updatePosition s =
     issue [SetArg ''computeCurl'' 8 (minV (bounds s)),
            SetArg ''computeCurl'' 9 (maxV (bounds s)),
            Run1D ''computeCurl'' (numParticles s),
            SetArg ''updatePosition'' 10 (minV (bounds s)),
            SetArg ''updatePosition'' 11 (maxV (bounds s)),
            Run1D ''updatePosition'' (numParticles s)] s"

text \<open>The solver loop \<open>for (int i = 0; i < N; i++)\<close> of \<open>step\<close>.\<close>

function solverLoop :: "int \<Rightarrow> int \<Rightarrow> Simulation \<Rightarrow> Simulation" where
  "solverLoop i N s =
     (if i < N
      then solverLoop (i + 1) N (updatePositionDelta (calculatePositionDelta (calculateDensity s)))
      else s)"
  by pat_completeness auto
termination
  by (relation "measure (\<lambda>(i, N, s). nat (N - i))") auto

declare solverLoop.simps [simp del]

text \<open>\<open>Simulation::step\<close>. The read back from the device is compiled in only for sphere
  rendering and changes no member that a claim below is about.\<close>

definition step :: "Constants \<Rightarrow> Simulation \<Rightarrow> Simulation" where
  "step C s =
     (let N = SOLVER_ITERATIONS C;
          s1 = resetQuantities s;
          s2 = predictPositions s1;
          s3 = findNeighboringParticles s2;
          s4 = solverLoop 0 N s3;
          s5 = updatePosition s4;
          s6 = issue [Finish] s5;
          s7 = (if animBounds s6 then stepBoundsAnimation s6 else s6)
      in s7\<lparr>frameNumber := frameNumber s7 + 1\<rparr>)"

subsection \<open>The public interface\<close>

text \<open>The public members of Simulation.h that change the state (\<open>draw\<close> only renders).
  The setters and toggles are the inline bodies of the header.\<close>

datatype Call =
    Step
  | Reset
  | ResetBounds
  | SetBounds AABB
  | SetParameters Parameters
  | ToggleDrawGrid
  | ToggleVisualDebugging
  | EnableBoundsAnimation
  | DisableBoundsAnimation
  | EnableBothSidesAnimation
  | DisableBothSidesAnimation
  | SetAnimationType AnimationType
  | SetAnimationPeriod real
  | SetAnimationAmp real

fun call :: "Constants \<Rightarrow> RandomSource \<Rightarrow> Call \<Rightarrow> Simulation \<Rightarrow> Simulation" where
  "call C rnd Step s = step C s"
| "call C rnd Reset s = reset rnd s"
| "call C rnd ResetBounds s = resetBounds s"
| "call C rnd (SetBounds b) s = setBounds b s"
| "call C rnd (SetParameters p) s = setParameters p s"
| "call C rnd ToggleDrawGrid s = s\<lparr>doDrawGrid := \<not> doDrawGrid s\<rparr>"
| "call C rnd ToggleVisualDebugging s = s\<lparr>doVisualDebugging := \<not> doVisualDebugging s\<rparr>"
| "call C rnd EnableBoundsAnimation s = s\<lparr>animBounds := True\<rparr>"
| "call C rnd DisableBoundsAnimation s = s\<lparr>animBounds := False\<rparr>"
| "call C rnd EnableBothSidesAnimation s = s\<lparr>animBothSides := True\<rparr>"
| "call C rnd DisableBothSidesAnimation s = s\<lparr>animBothSides := False\<rparr>"
| "call C rnd (SetAnimationType a) s = s\<lparr>animType := a\<rparr>"
| "call C rnd (SetAnimationPeriod period) s = s\<lparr>animPeriod := period\<rparr>"
| "call C rnd (SetAnimationAmp amp) s = s\<lparr>animAmp := amp\<rparr>"

text \<open>A sequence of calls, first to last.\<close>

primrec calls :: "Constants \<Rightarrow> RandomSource \<Rightarrow> Call list \<Rightarrow> Simulation \<Rightarrow> Simulation" where
  "calls C rnd [] s = s"
| "calls C rnd (c # cs) s = calls C rnd cs (call C rnd c s)"

text \<open>The states a simulation constructed with bounds \<open>b\<close> can be in: what a constructor
  returns, and what a public call makes of such a state.\<close>

inductive reachable :: "Constants \<Rightarrow> RandomSource \<Rightarrow> AABB \<Rightarrow> Simulation \<Rightarrow> bool"
  for C :: Constants and rnd :: RandomSource and b :: AABB where
  new6: "reachable C rnd b (newSimulation6 rnd b n d c p)"
| new4: "reachable C rnd b (newSimulation4 C rnd c b n p)"
| call: "reachable C rnd b s \<Longrightarrow> reachable C rnd b (call C rnd c s)"

subsection \<open>Quantities the properties are stated with\<close>

text \<open>The offset one call of \<open>stepBoundsAnimation\<close> applies to the upper X bound: the
  original upper X bound minus the upper X bound after the call (\<open>value\<close> in the source).\<close>

definition maxXOffset :: "Simulation \<Rightarrow> real" where
  "maxXOffset s = vx (maxV (originalBounds s)) - vx (maxV (bounds (stepBoundsAnimation s)))"

text \<open>The state with the animation frame counter at \<open>f\<close>.\<close>

definition atFrame :: "32 word \<Rightarrow> Simulation \<Rightarrow> Simulation" where
  "atFrame f s = s\<lparr>animFrameNumber := f\<rparr>"

text \<open>The commands of one solver iteration, for bounds \<open>b\<close> and \<open>n\<close> particles.\<close>

definition iterationCommands :: "AABB \<Rightarrow> int \<Rightarrow> Command list" where
  "iterationCommands b n =
     [SetArg ''estimateDensity'' 8 (minV b),
      SetArg ''estimateDensity'' 9 (maxV b),
      Run1D ''estimateDensity'' n,
      SetArg ''computeLambda'' 9 (minV b),
      SetArg ''computeLambda'' 10 (maxV b),
      Run1D ''computeLambda'' n,
      SetArg ''computePositionDelta'' 9 (minV b),
      SetArg ''computePositionDelta'' 10 (maxV b),
      Run1D ''computePositionDelta'' n,
      Run1D ''updatePositionDelta'' n]"

text \<open>The commands of one \<open>step\<close>, in the order of issue.\<close>

definition stepCommands :: "Constants \<Rightarrow> Simulation \<Rightarrow> Command list" where
  "stepCommands C s =
     [Run1D ''resetParticleQuantities'' (numParticles s),
      Run1D ''resetCellQuantities'' (numCells s),
      Run1D ''predictPosition'' (numParticles s),
      SetArg ''discretizeParticlePositions'' 6 (minV (bounds s)),
      SetArg ''discretizeParticlePositions'' 7 (maxV (bounds s)),
      Run1D ''discretizeParticlePositions'' (numParticles s),
      Scan (numCells s),
      Run1D ''countSortParticlesByCell'' (numParticles s),
      Run1D ''findParticleBins'' (numParticles s)]
     @ concat (replicate (nat (SOLVER_ITERATIONS C)) (iterationCommands (bounds s) (numParticles s)))
     @ [SetArg ''computeCurl'' 8 (minV (bounds s)),
        SetArg ''computeCurl'' 9 (maxV (bounds s)),
        Run1D ''computeCurl'' (numParticles s),
        SetArg ''updatePosition'' 10 (minV (bounds s)),
        SetArg ''updatePosition'' 11 (maxV (bounds s)),
        Run1D ''updatePosition'' (numParticles s),
        Finish]"

subsection \<open>Concrete inputs\<close>

definition exampleConstants :: Constants where
  "exampleConstants =
     \<lparr>SOLVER_ITERATIONS = 3, DEFAULT_DT = 1 / 30\<rparr>"

definition exampleBounds :: AABB where
  "exampleBounds = \<lparr>minV = \<lparr>vx = 0, vy = 0, vz = 0\<rparr>, maxV = \<lparr>vx = 300, vy = 100, vz = 100\<rparr>\<rparr>"

text \<open>A box that does not touch the ground plane.\<close>

definition raisedBounds :: AABB where
  "raisedBounds = \<lparr>minV = \<lparr>vx = 0, vy = 10, vz = 0\<rparr>, maxV = \<lparr>vx = 20, vy = 20, vz = 20\<rparr>\<rparr>"

text \<open>A random source whose unit samples are all one half: every draw is the middle of
  its range.\<close>

definition midpointSource :: RandomSource where
  "midpointSource k = 1 / 2"

definition exampleSim :: Simulation where
  "exampleSim =
     newSimulation6 midpointSource exampleBounds 2 (1 / 30) \<lparr>vx = 2, vy = 2, vz = 2\<rparr>
       \<lparr>particleRadius = 1\<rparr>"

text \<open>The example simulation with the animation type set to \<open>COMPRESS\<close>.\<close>

definition compressSim :: Simulation where
  "compressSim = call exampleConstants midpointSource (SetAnimationType COMPRESS) exampleSim"

definition raisedSim :: Simulation where
  "raisedSim =
     newSimulation6 midpointSource raisedBounds 1 (1 / 30) \<lparr>vx = 2, vy = 2, vz = 2\<rparr>
       \<lparr>particleRadius = 1\<rparr>"

section \<open>Properties\<close>

subsection \<open>Commands leave the host members alone\<close>

lemma issue_simps [simp]:
  "openCL (issue cs s) = openCL s @ cs"
  "frameNumber (issue cs s) = frameNumber s"
  "numCells (issue cs s) = numCells s"
  "doDrawGrid (issue cs s) = doDrawGrid s"
  "doVisualDebugging (issue cs s) = doVisualDebugging s"
  "animBounds (issue cs s) = animBounds s"
  "animFrameNumber (issue cs s) = animFrameNumber s"
  "animType (issue cs s) = animType s"
  "animPeriod (issue cs s) = animPeriod s"
  "animAmp (issue cs s) = animAmp s"
  "animBothSides (issue cs s) = animBothSides s"
  "originalBounds (issue cs s) = originalBounds s"
  "bounds (issue cs s) = bounds s"
  "dt (issue cs s) = dt s"
  "cellsPerAxis (issue cs s) = cellsPerAxis s"
  "numParticles (issue cs s) = numParticles s"
  "parameters (issue cs s) = parameters s"
  "particles (issue cs s) = particles s"
  "randomCalls (issue cs s) = randomCalls s"
  by (simp_all add: issue_def)

lemma issue_issue: "issue bs (issue as s) = issue (as @ bs) s"
  by (simp add: issue_def)

lemma issue_Nil: "issue [] s = s"
  by (simp add: issue_def)

lemma iteration_issue:
  "updatePositionDelta (calculatePositionDelta (calculateDensity s))
     = issue (iterationCommands (bounds s) (numParticles s)) s"
  by (simp add: updatePositionDelta_def calculatePositionDelta_def calculateDensity_def
      issue_issue iterationCommands_def)

text \<open>The solver loop issues the commands of one iteration \<open>N - i\<close> times (none when
  \<open>N \<le> i\<close>): computation induction along the loop.\<close>

lemma solverLoop_issue:
  "solverLoop i N s
     = issue (concat (replicate (nat (N - i)) (iterationCommands (bounds s) (numParticles s)))) s"
proof (induction i N s rule: solverLoop.induct)
  case (1 i N s)
  show ?case
  proof (cases "i < N")
    case True
    then have n: "nat (N - i) = Suc (nat (N - (i + 1)))" by simp
    have "solverLoop i N s
            = solverLoop (i + 1) N (updatePositionDelta (calculatePositionDelta (calculateDensity s)))"
      using True by (simp add: solverLoop.simps [of i N s])
    also have "\<dots> = issue (concat (replicate (nat (N - (i + 1)))
                   (iterationCommands (bounds s) (numParticles s))))
                 (issue (iterationCommands (bounds s) (numParticles s)) s)"
      using "1.IH" [OF True] by (simp add: iteration_issue)
    finally show ?thesis
      by (simp only: n issue_issue replicate_Suc concat.simps)
  next
    case False
    then show ?thesis
      by (simp add: solverLoop.simps [of i N s] issue_Nil)
  qed
qed

lemma pipeline_issue:
  "issue [Finish] (updatePosition (solverLoop 0 (SOLVER_ITERATIONS C)
      (findNeighboringParticles (predictPositions (resetQuantities s)))))
   = issue (stepCommands C s) s"
  by (simp add: resetQuantities_def predictPositions_def
      findNeighboringParticles_def sortParticlesByCell_def discretizeParticlePositions_def
      updatePosition_def solverLoop_issue issue_issue stepCommands_def)

lemma step_issue:
  "step C s =
     (let s6 = issue (stepCommands C s) s;
          s7 = (if animBounds s then stepBoundsAnimation s6 else s6)
      in s7\<lparr>frameNumber := frameNumber s7 + 1\<rparr>)"
  unfolding step_def Let_def pipeline_issue by simp

subsection \<open>What the bounds animation leaves alone\<close>

lemma setX_simps [simp]:
  "openCL (setMaxX v s) = openCL s" "openCL (setMinX v s) = openCL s"
  "frameNumber (setMaxX v s) = frameNumber s" "frameNumber (setMinX v s) = frameNumber s"
  "numCells (setMaxX v s) = numCells s" "numCells (setMinX v s) = numCells s"
  "animFrameNumber (setMaxX v s) = animFrameNumber s" "animFrameNumber (setMinX v s) = animFrameNumber s"
  "animType (setMaxX v s) = animType s" "animType (setMinX v s) = animType s"
  "animPeriod (setMaxX v s) = animPeriod s" "animPeriod (setMinX v s) = animPeriod s"
  "animAmp (setMaxX v s) = animAmp s" "animAmp (setMinX v s) = animAmp s"
  "animBothSides (setMaxX v s) = animBothSides s" "animBothSides (setMinX v s) = animBothSides s"
  "animBounds (setMaxX v s) = animBounds s" "animBounds (setMinX v s) = animBounds s"
  "originalBounds (setMaxX v s) = originalBounds s" "originalBounds (setMinX v s) = originalBounds s"
  "dt (setMaxX v s) = dt s" "dt (setMinX v s) = dt s"
  "cellsPerAxis (setMaxX v s) = cellsPerAxis s" "cellsPerAxis (setMinX v s) = cellsPerAxis s"
  "numParticles (setMaxX v s) = numParticles s" "numParticles (setMinX v s) = numParticles s"
  "parameters (setMaxX v s) = parameters s" "parameters (setMinX v s) = parameters s"
  "particles (setMaxX v s) = particles s" "particles (setMinX v s) = particles s"
  by (simp_all add: setMaxX_def setMinX_def)

lemma setX_bounds [simp]:
  "minV (bounds (setMaxX v s)) = minV (bounds s)"
  "vx (maxV (bounds (setMaxX v s))) = v"
  "vy (maxV (bounds (setMaxX v s))) = vy (maxV (bounds s))"
  "vz (maxV (bounds (setMaxX v s))) = vz (maxV (bounds s))"
  "maxV (bounds (setMinX v s)) = maxV (bounds s)"
  "vx (minV (bounds (setMinX v s))) = v"
  "vy (minV (bounds (setMinX v s))) = vy (minV (bounds s))"
  "vz (minV (bounds (setMinX v s))) = vz (minV (bounds s))"
  by (simp_all add: setMaxX_def setMinX_def)

lemma animateWave_simps [simp]:
  "openCL (animateWave v s) = openCL s"
  "frameNumber (animateWave v s) = frameNumber s"
  "numCells (animateWave v s) = numCells s"
  "animFrameNumber (animateWave v s) = animFrameNumber s"
  "animType (animateWave v s) = animType s"
  "animPeriod (animateWave v s) = animPeriod s"
  "animAmp (animateWave v s) = animAmp s"
  "animBothSides (animateWave v s) = animBothSides s"
  "animBounds (animateWave v s) = animBounds s"
  "originalBounds (animateWave v s) = originalBounds s"
  "dt (animateWave v s) = dt s"
  "cellsPerAxis (animateWave v s) = cellsPerAxis s"
  "numParticles (animateWave v s) = numParticles s"
  "parameters (animateWave v s) = parameters s"
  "particles (animateWave v s) = particles s"
  "vy (minV (bounds (animateWave v s))) = vy (minV (bounds s))"
  "vz (minV (bounds (animateWave v s))) = vz (minV (bounds s))"
  "vy (maxV (bounds (animateWave v s))) = vy (maxV (bounds s))"
  "vz (maxV (bounds (animateWave v s))) = vz (maxV (bounds s))"
  "vx (maxV (bounds (animateWave v s))) = vx (maxV (originalBounds s)) - v"
  by (simp_all add: animateWave_def Let_def)

lemma compress_simps [simp]:
  "openCL (compress s) = openCL s"
  "frameNumber (compress s) = frameNumber s"
  "numCells (compress s) = numCells s"
  "animFrameNumber (compress s) = animFrameNumber s"
  "animType (compress s) = animType s"
  "animPeriod (compress s) = animPeriod s"
  "animAmp (compress s) = animAmp s"
  "animBothSides (compress s) = animBothSides s"
  "animBounds (compress s) = animBounds s"
  "originalBounds (compress s) = originalBounds s"
  "dt (compress s) = dt s"
  "cellsPerAxis (compress s) = cellsPerAxis s"
  "numParticles (compress s) = numParticles s"
  "parameters (compress s) = parameters s"
  "particles (compress s) = particles s"
  "vy (minV (bounds (compress s))) = vy (minV (bounds s))"
  "vz (minV (bounds (compress s))) = vz (minV (bounds s))"
  "vy (maxV (bounds (compress s))) = vy (maxV (bounds s))"
  "vz (maxV (bounds (compress s))) = vz (maxV (bounds s))"
  by (simp_all add: compress_def Let_def)

lemma stepBoundsAnimation_simps [simp]:
  "openCL (stepBoundsAnimation s) = openCL s"
  "frameNumber (stepBoundsAnimation s) = frameNumber s"
  "numCells (stepBoundsAnimation s) = numCells s"
  "animFrameNumber (stepBoundsAnimation s) = animFrameNumber s + 1"
  "animType (stepBoundsAnimation s) = animType s"
  "animPeriod (stepBoundsAnimation s) = animPeriod s"
  "animAmp (stepBoundsAnimation s) = animAmp s"
  "animBothSides (stepBoundsAnimation s) = animBothSides s"
  "animBounds (stepBoundsAnimation s) = animBounds s"
  "originalBounds (stepBoundsAnimation s) = originalBounds s"
  "dt (stepBoundsAnimation s) = dt s"
  "cellsPerAxis (stepBoundsAnimation s) = cellsPerAxis s"
  "numParticles (stepBoundsAnimation s) = numParticles s"
  "parameters (stepBoundsAnimation s) = parameters s"
  "particles (stepBoundsAnimation s) = particles s"
  by (simp_all add: stepBoundsAnimation_def Let_def)

lemma stepBoundsAnimation_yz:
  "vy (minV (bounds (stepBoundsAnimation s))) = vy (minV (bounds s))"
  "vz (minV (bounds (stepBoundsAnimation s))) = vz (minV (bounds s))"
  "vy (maxV (bounds (stepBoundsAnimation s))) = vy (maxV (bounds s))"
  "vz (maxV (bounds (stepBoundsAnimation s))) = vz (maxV (bounds s))"
  by (simp_all add: stepBoundsAnimation_def Let_def)

subsection \<open>The step\<close>

text \<open>
  C1. Every call of \<open>step\<close> issues, after whatever was issued before, exactly these
  commands in this order: the two reset kernels (particle and cell scratch quantities),
  the position prediction, the grid build (discretisation with the current bounds bound
  to its arguments, then the counting sort: prefix sum of the histogram, the sort kernel,
  the bin kernel), then \<open>SOLVER_ITERATIONS\<close> times the four solver kernels
  estimateDensity, computeLambda, computePositionDelta, updatePositionDelta (no
  iteration when the constant is not positive), then the curl kernel and the final
  position update, and the wait for the queue.
\<close>

theorem step_command_order:
  "openCL (step C s) = openCL s @
      [Run1D ''resetParticleQuantities'' (numParticles s),
       Run1D ''resetCellQuantities'' (numCells s),
       Run1D ''predictPosition'' (numParticles s),
       SetArg ''discretizeParticlePositions'' 6 (minV (bounds s)),
       SetArg ''discretizeParticlePositions'' 7 (maxV (bounds s)),
       Run1D ''discretizeParticlePositions'' (numParticles s),
       Scan (numCells s),
       Run1D ''countSortParticlesByCell'' (numParticles s),
       Run1D ''findParticleBins'' (numParticles s)]
      @ concat (replicate (nat (SOLVER_ITERATIONS C))
         [SetArg ''estimateDensity'' 8 (minV (bounds s)),
          SetArg ''estimateDensity'' 9 (maxV (bounds s)),
          Run1D ''estimateDensity'' (numParticles s),
          SetArg ''computeLambda'' 9 (minV (bounds s)),
          SetArg ''computeLambda'' 10 (maxV (bounds s)),
          Run1D ''computeLambda'' (numParticles s),
          SetArg ''computePositionDelta'' 9 (minV (bounds s)),
          SetArg ''computePositionDelta'' 10 (maxV (bounds s)),
          Run1D ''computePositionDelta'' (numParticles s),
          Run1D ''updatePositionDelta'' (numParticles s)])
      @ [SetArg ''computeCurl'' 8 (minV (bounds s)),
         SetArg ''computeCurl'' 9 (maxV (bounds s)),
         Run1D ''computeCurl'' (numParticles s),
         SetArg ''updatePosition'' 10 (minV (bounds s)),
         SetArg ''updatePosition'' 11 (maxV (bounds s)),
         Run1D ''updatePosition'' (numParticles s),
         Finish]"
proof -
  have "openCL (step C s) = openCL s @ stepCommands C s"
    by (simp add: step_issue Let_def)
  then show ?thesis
    by (simp only: stepCommands_def iterationCommands_def append_assoc)
qed

text \<open>
  C2. One call of \<open>step\<close> increments the frame number by one: \<open>getFrameNumber\<close>
  afterwards is its value before plus 1, in the arithmetic of \<open>unsigned int\<close> (the
  frame number is a \<open>32 word\<close>, so the sum is taken modulo \<open>2 ^ 32\<close>). The step returns
  nothing but the updated state.
\<close>

theorem step_increments_frameNumber:
  "getFrameNumber (step C s) = getFrameNumber s + 1"
  by (simp add: getFrameNumber_def step_issue Let_def)

subsection \<open>The bounds animation\<close>

text \<open>
  C8. Whatever the animation type, a call of \<open>stepBoundsAnimation\<close> leaves the Y and Z
  components of both extents of the bounds as they were: only X components are written.
\<close>

theorem stepBoundsAnimation_only_x:
  "vy (minV (bounds (stepBoundsAnimation s))) = vy (minV (bounds s)) \<and>
   vz (minV (bounds (stepBoundsAnimation s))) = vz (minV (bounds s)) \<and>
   vy (maxV (bounds (stepBoundsAnimation s))) = vy (maxV (bounds s)) \<and>
   vz (maxV (bounds (stepBoundsAnimation s))) = vz (maxV (bounds s))"
proof (cases "animType s")
  case SINE_WAVE
  then show ?thesis by (simp add: stepBoundsAnimation_def Let_def)
next
  case LINEAR_RAMP
  then show ?thesis by (simp add: stepBoundsAnimation_def Let_def)
next
  case COMPRESS
  then show ?thesis by (simp add: stepBoundsAnimation_def Let_def)
qed

subsection \<open>Reachable states\<close>

text \<open>Two facts hold in every state a constructed simulation can be in: the original
  bounds are the bounds given to the constructor, and the cell count is the one derived
  from the cells per axis. Rule induction over the constructors and the public calls.\<close>

lemma initializeBuffers_simps [simp]:
  "numCells (initializeBuffers rnd s) = cellCount (cellsPerAxis s)"
  "frameNumber (initializeBuffers rnd s) = frameNumber s"
  "animFrameNumber (initializeBuffers rnd s) = animFrameNumber s"
  "originalBounds (initializeBuffers rnd s) = originalBounds s"
  "bounds (initializeBuffers rnd s) = bounds s"
  "cellsPerAxis (initializeBuffers rnd s) = cellsPerAxis s"
  "numParticles (initializeBuffers rnd s) = numParticles s"
  "parameters (initializeBuffers rnd s) = parameters s"
  "animType (initializeBuffers rnd s) = animType s"
  "animAmp (initializeBuffers rnd s) = animAmp s"
  "animPeriod (initializeBuffers rnd s) = animPeriod s"
  "dt (initializeBuffers rnd s) = dt s"
  "animBothSides (initializeBuffers rnd s) = animBothSides s"
  "animBounds (initializeBuffers rnd s) = animBounds s"
  "doDrawGrid (initializeBuffers rnd s) = doDrawGrid s"
  "doVisualDebugging (initializeBuffers rnd s) = doVisualDebugging s"
  by (simp_all add: initializeBuffers_def Let_def)

lemma initialize_simps [simp]:
  "numCells (initialize rnd s) = cellCount (cellsPerAxis s)"
  "originalBounds (initialize rnd s) = originalBounds s"
  "bounds (initialize rnd s) = bounds s"
  "cellsPerAxis (initialize rnd s) = cellsPerAxis s"
  "numParticles (initialize rnd s) = numParticles s"
  by (simp_all add: initialize_def writeToGPU_def setupKernels_def)

lemma reset_simps [simp]:
  "numCells (reset rnd s) = cellCount (cellsPerAxis s)"
  "frameNumber (reset rnd s) = 0"
  "animFrameNumber (reset rnd s) = 0"
  "originalBounds (reset rnd s) = originalBounds s"
  "bounds (reset rnd s) = originalBounds s"
  "cellsPerAxis (reset rnd s) = cellsPerAxis s"
  "numParticles (reset rnd s) = numParticles s"
  by (simp_all add: reset_def writeToGPU_def setupKernels_def resetBounds_def)

lemma step_simps [simp]:
  "numCells (step C s) = numCells s"
  "originalBounds (step C s) = originalBounds s"
  "cellsPerAxis (step C s) = cellsPerAxis s"
  "numParticles (step C s) = numParticles s"
  by (simp_all add: step_issue Let_def)

lemma call_keeps:
  "originalBounds (call C rnd c s) = originalBounds s"
  "cellsPerAxis (call C rnd c s) = cellsPerAxis s"
  "numParticles (call C rnd c s) = numParticles s"
  by (cases c; simp add: resetBounds_def setBounds_def setParameters_def)+

lemma call_numCells:
  "numCells s = cellCount (cellsPerAxis s)
     \<Longrightarrow> numCells (call C rnd c s) = cellCount (cellsPerAxis (call C rnd c s))"
  by (cases c) (simp_all add: resetBounds_def setBounds_def setParameters_def)

lemma reachable_invariant:
  "reachable C rnd b s \<Longrightarrow> originalBounds s = b \<and> numCells s = cellCount (cellsPerAxis s)"
proof (induction rule: reachable.induct)
  case (new6 n d c p)
  show ?case by (simp add: newSimulation6_def members_def)
next
  case (new4 c n p)
  show ?case by (simp add: newSimulation4_def members_def)
next
  case (call s c)
  then show ?case by (simp add: call_keeps call_numCells)
qed

lemma reachable_calls:
  "reachable C rnd b s \<Longrightarrow> reachable C rnd b (calls C rnd cs s)"
  by (induction cs arbitrary: s) (simp_all add: reachable.call)

lemma word_step_less: "(w :: 32 word) \<noteq> 4294967295 \<Longrightarrow> w < w + 1"
  by (unat_arith; simp?)

lemma animFrameNumber_funpow:
  "animFrameNumber ((stepBoundsAnimation ^^ n) s) = animFrameNumber s + of_nat n"
  by (induction n) simp_all

lemma exampleSim_fields:
  "animFrameNumber exampleSim = 0"
  "frameNumber exampleSim = 0"
  "animType exampleSim = SINE_WAVE"
  "animAmp exampleSim = 10"
  "animPeriod exampleSim = 1"
  "animBothSides exampleSim = False"
  "originalBounds exampleSim = exampleBounds"
  "bounds exampleSim = exampleBounds"
  "dt exampleSim = 1 / 30"
  "numParticles exampleSim = 2"
  "cellsPerAxis exampleSim = \<lparr>vx = 2, vy = 2, vz = 2\<rparr>"
  by (simp_all add: exampleSim_def newSimulation6_def initialize_def writeToGPU_def
      setupKernels_def members_def)

lemma exampleSim_reachable: "reachable exampleConstants midpointSource exampleBounds exampleSim"
  unfolding exampleSim_def by (rule reachable.new6)

subsection \<open>Reset and the bounds\<close>

text \<open>
  C3. In every state of a simulation constructed with bounds \<open>b\<close>, after \<open>reset\<close> (with
  any random source) the current bounds are \<open>b\<close> again, and the particle count, the
  cells per axis and the cell count are what they were before the call.
\<close>

theorem reset_restores_bounds_keeps_sizes:
  assumes "reachable C rnd b s"
  shows "getBounds (reset rnd' s) = b \<and>
         numParticles (reset rnd' s) = numParticles s \<and>
         cellsPerAxis (reset rnd' s) = cellsPerAxis s \<and>
         numCells (reset rnd' s) = numCells s"
  using reachable_invariant [OF assms] by (simp add: getBounds_def)

text \<open>The hypothesis of C3 at a concrete state: the example simulation after
  \<open>setBounds\<close> installed other bounds; \<open>reset\<close> brings the construction bounds back.\<close>

theorem reset_restores_bounds_keeps_sizes_witness:
  "reachable exampleConstants midpointSource exampleBounds (setBounds raisedBounds exampleSim) \<and>
   getBounds (setBounds raisedBounds exampleSim) = raisedBounds \<and>
   getBounds (reset midpointSource (setBounds raisedBounds exampleSim)) = exampleBounds \<and>
   numParticles (reset midpointSource (setBounds raisedBounds exampleSim)) = 2 \<and>
   cellsPerAxis (reset midpointSource (setBounds raisedBounds exampleSim)) = \<lparr>vx = 2, vy = 2, vz = 2\<rparr> \<and>
   numCells (reset midpointSource (setBounds raisedBounds exampleSim)) = 8"
proof -
  have "reachable exampleConstants midpointSource exampleBounds
          (call exampleConstants midpointSource (SetBounds raisedBounds) exampleSim)"
    using exampleSim_reachable by (rule reachable.call)
  then have r: "reachable exampleConstants midpointSource exampleBounds
                  (setBounds raisedBounds exampleSim)"
    by simp
  have n: "numCells (setBounds raisedBounds exampleSim) = 8"
    by (simp add: setBounds_def exampleSim_def newSimulation6_def initialize_def writeToGPU_def
        setupKernels_def members_def cellCount_def castInt_def wrapInt_def)
  show ?thesis
    using r n reset_restores_bounds_keeps_sizes [OF r, of midpointSource]
    by (simp add: setBounds_def getBounds_def exampleSim_fields)
qed

text \<open>
  C10. In every state of a simulation constructed with bounds \<open>b0\<close>, \<open>setBounds b\<close>
  changes the current bounds and nothing else; in particular the original bounds stay
  \<open>b0\<close>. Whatever public calls \<open>cs\<close> follow, a later \<open>resetBounds\<close> or \<open>reset\<close> makes the
  current bounds \<open>b0\<close> again, so the bounds installed by \<open>setBounds\<close> are discarded.
\<close>

theorem setBounds_keeps_originalBounds:
  assumes "reachable C rnd b0 s"
  shows "originalBounds (setBounds b s) = originalBounds s \<and>
         originalBounds (setBounds b s) = b0 \<and>
         getBounds (setBounds b s) = b \<and>
         setBounds b s = s\<lparr>bounds := b\<rparr> \<and>
         getBounds (resetBounds (calls C rnd cs (setBounds b s))) = b0 \<and>
         getBounds (reset rnd (calls C rnd cs (setBounds b s))) = b0"
proof -
  have "reachable C rnd b0 (call C rnd (SetBounds b) s)"
    using assms by (rule reachable.call)
  then have "reachable C rnd b0 (calls C rnd cs (setBounds b s))"
    by (simp add: reachable_calls)
  then have later: "originalBounds (calls C rnd cs (setBounds b s)) = b0"
    by (simp add: reachable_invariant)
  have now: "originalBounds s = b0"
    using assms by (simp add: reachable_invariant)
  show ?thesis
    using later now by (simp add: setBounds_def getBounds_def resetBounds_def)
qed

text \<open>The hypothesis of C10 at the example simulation, with two steps (the second one
  animated) between \<open>setBounds\<close> and the reset.\<close>

theorem setBounds_keeps_originalBounds_witness:
  "reachable exampleConstants midpointSource exampleBounds exampleSim \<and>
   originalBounds (setBounds raisedBounds exampleSim) = exampleBounds \<and>
   getBounds (setBounds raisedBounds exampleSim) = raisedBounds \<and>
   getBounds (resetBounds (calls exampleConstants midpointSource [Step, EnableBoundsAnimation, Step]
      (setBounds raisedBounds exampleSim))) = exampleBounds \<and>
   getBounds (reset midpointSource (calls exampleConstants midpointSource [Step, EnableBoundsAnimation, Step]
      (setBounds raisedBounds exampleSim))) = exampleBounds"
  using exampleSim_reachable
    setBounds_keeps_originalBounds [OF exampleSim_reachable, of raisedBounds
      "[Step, EnableBoundsAnimation, Step]"]
  by blast

subsection \<open>The animation frame counter\<close>

text \<open>
  C9, as the code has it. \<open>resetBounds\<close> and \<open>reset\<close> set the animation frame counter to
  0. Every call of \<open>stepBoundsAnimation\<close> adds one to it in \<open>unsigned int\<close> arithmetic:
  the counter grows strictly across the call when it is below \<open>2 ^ 32 - 1\<close>, and goes
  from \<open>2 ^ 32 - 1\<close> back to 0.
\<close>

theorem animFrameNumber_counts:
  "animFrameNumber (resetBounds s) = 0 \<and>
   animFrameNumber (reset rnd s) = 0 \<and>
   animFrameNumber (stepBoundsAnimation s) = animFrameNumber s + 1 \<and>
   (animFrameNumber s \<noteq> 4294967295 \<longrightarrow>
      animFrameNumber s < animFrameNumber (stepBoundsAnimation s)) \<and>
   (animFrameNumber s = 4294967295 \<longrightarrow> animFrameNumber (stepBoundsAnimation s) = 0)"
  by (simp add: resetBounds_def word_step_less)

text \<open>C9 at the fresh example simulation (counter 0) and at the last counter value.\<close>

theorem animFrameNumber_counts_witness:
  "animFrameNumber exampleSim \<noteq> 4294967295 \<and>
   animFrameNumber exampleSim < animFrameNumber (stepBoundsAnimation exampleSim) \<and>
   animFrameNumber (stepBoundsAnimation exampleSim) = 1 \<and>
   animFrameNumber (resetBounds (stepBoundsAnimation exampleSim)) = 0 \<and>
   animFrameNumber (atFrame 4294967295 exampleSim) = 4294967295 \<and>
   animFrameNumber (stepBoundsAnimation (atFrame 4294967295 exampleSim)) = 0"
  using animFrameNumber_counts [of exampleSim midpointSource]
    animFrameNumber_counts [of "stepBoundsAnimation exampleSim" midpointSource]
    animFrameNumber_counts [of "atFrame 4294967295 exampleSim" midpointSource]
  by (simp add: exampleSim_fields atFrame_def)

text \<open>
  C9 as stated fails: without any reset, the counter of the example simulation reads
  \<open>2 ^ 32 - 1\<close> after that many calls of \<open>stepBoundsAnimation\<close> and 0 after one more, so
  it is not strictly increasing outside of resets.
\<close>

theorem animFrameNumber_wraps:
  "animFrameNumber ((stepBoundsAnimation ^^ 4294967295) exampleSim) = 4294967295 \<and>
   animFrameNumber ((stepBoundsAnimation ^^ 4294967296) exampleSim) = 0 \<and>
   \<not> animFrameNumber ((stepBoundsAnimation ^^ 4294967295) exampleSim)
       < animFrameNumber ((stepBoundsAnimation ^^ 4294967296) exampleSim)"
proof -
  have a: "animFrameNumber ((stepBoundsAnimation ^^ 4294967295) exampleSim) = 4294967295"
    by (simp only: animFrameNumber_funpow exampleSim_fields) simp
  have b: "animFrameNumber ((stepBoundsAnimation ^^ 4294967296) exampleSim) = 0"
    by (simp only: animFrameNumber_funpow exampleSim_fields) simp
  show ?thesis
    by (simp only: a b) simp
qed

subsection \<open>Initial particles\<close>

lemma particles_initializeBuffers:
  "particles (initializeBuffers rnd s)
     = map (\<lambda>i. initParticle rnd (minV (bounds s)) (maxV (bounds s))
                   (particleRadius (parameters s)) (randomCalls s + 3 * i))
           [0..<nat (numParticles s)]"
  by (simp add: initializeBuffers_def Let_def)

lemma particles_newSimulation6:
  "particles (newSimulation6 rnd b n d c p)
     = map (\<lambda>i. initParticle rnd (minV b) (maxV b) (particleRadius p) (3 * i)) [0..<nat n]"
  by (simp add: newSimulation6_def initialize_def writeToGPU_def setupKernels_def
      particles_initializeBuffers members_def)







text \<open>Outside the hypotheses of C4: the upper end of the Y range is a quarter of
  \<open>max.y - radius\<close> whatever \<open>min.y\<close> is. In a box whose Y extent is \<open>10 .. 20\<close>, with
  radius 1, the draw is between 4.75 and 11, and the middle of that range is below the
  box, where the comment in the source reads "Random position in the bounding box".\<close>

lemma raised_box_position_below_bounds:
  "vy (pos (particles raisedSim ! 0)) = 63 / 8 \<and> vy (minV (getBounds raisedSim)) = 10"
proof -
  have p: "particles raisedSim ! 0
             = initParticle midpointSource (minV raisedBounds) (maxV raisedBounds) 1 0"
    unfolding raisedSim_def particles_newSimulation6 by simp
  have y: "vy (pos (particles raisedSim ! 0)) = 63 / 8"
    unfolding p by (simp add: initParticle_def raisedBounds_def midpointSource_def ofRandom_def)
  have b: "vy (minV (getBounds raisedSim)) = 10"
    by (simp add: raisedSim_def getBounds_def newSimulation6_def initialize_def writeToGPU_def
        setupKernels_def members_def raisedBounds_def)
  show ?thesis
    using y b by simp
qed

subsection \<open>Compression\<close>

lemma limit_values:
  "limitMaxX ob = vx (minV ob) + 0.67 * (vx (maxV ob) - vx (minV ob))"
  "limitMinX ob = vx (minV ob) + 0.33 * (vx (maxV ob) - vx (minV ob))"
  by (simp_all add: limitMaxX_def limitMinX_def Let_def field_simps)

lemma exampleBounds_x:
  "vx (maxV exampleBounds) = 300"
  "vx (minV exampleBounds) = 0"
  by (simp_all add: exampleBounds_def)

lemma compress_x:
  "vx (maxV (bounds (compress s)))
     = (if limitMaxX (originalBounds s) \<le> vx (maxV (bounds s))
        then vx (maxV (bounds s)) - 0.25 else vx (maxV (bounds s)))"
  "vx (minV (bounds (compress s)))
     = (if animBothSides s \<and> vx (minV (bounds s)) \<le> limitMinX (originalBounds s)
        then vx (minV (bounds s)) + 0.25 else vx (minV (bounds s)))"
  by (simp_all add: compress_def Let_def)

lemma stepBoundsAnimation_compress:
  "animType s = COMPRESS \<Longrightarrow> bounds (stepBoundsAnimation s) = bounds (compress s)"
  by (simp add: stepBoundsAnimation_def Let_def)

lemma funpow_keeps:
  "animType ((stepBoundsAnimation ^^ n) s) = animType s"
  "originalBounds ((stepBoundsAnimation ^^ n) s) = originalBounds s"
  "animBothSides ((stepBoundsAnimation ^^ n) s) = animBothSides s"
  by (induction n) simp_all

lemma compress_max_le:
  "animType s = COMPRESS
     \<Longrightarrow> vx (maxV (bounds (stepBoundsAnimation s))) \<le> vx (maxV (bounds s))"
  by (simp add: stepBoundsAnimation_compress compress_x)

lemma compress_funpow_max:
  assumes "animType s = COMPRESS"
    and "\<forall>k<n. limitMaxX (originalBounds s) \<le> vx (maxV (bounds s)) - 0.25 * real k"
  shows "vx (maxV (bounds ((stepBoundsAnimation ^^ n) s))) = vx (maxV (bounds s)) - 0.25 * real n"
  using assms(2)
proof (induction n)
  case 0
  show ?case by simp
next
  case (Suc n)
  let ?t = "(stepBoundsAnimation ^^ n) s"
  have before: "vx (maxV (bounds ?t)) = vx (maxV (bounds s)) - 0.25 * real n"
    using Suc by simp
  have above: "limitMaxX (originalBounds ?t) \<le> vx (maxV (bounds ?t))"
    using Suc.prems before by (simp add: funpow_keeps)
  have "animType ?t = COMPRESS"
    using assms(1) by (simp add: funpow_keeps)
  then have "vx (maxV (bounds (stepBoundsAnimation ?t))) = vx (maxV (bounds ?t)) - 0.25"
    using above by (simp add: stepBoundsAnimation_compress compress_x)
  then have after: "vx (maxV (bounds ((stepBoundsAnimation ^^ Suc n) s)))
                      = vx (maxV (bounds s)) - 0.25 * real n - 0.25"
    using before by simp
  show ?case
    unfolding after by (simp add: field_simps)
qed

text \<open>
  C5, as the code has it. Under \<open>COMPRESS\<close> one call of \<open>stepBoundsAnimation\<close> lowers the
  upper X bound by 0.25 when it is at or above \<open>limitMaxX\<close> and leaves it alone when it
  is below; \<open>limitMaxX\<close> lies at 0.67 of the original width above the original lower X
  bound (the original upper bound minus half of 0.66 of the width), not at 2/3. With
  both sides enabled the lower X bound is raised by 0.25 when it is at or below
  \<open>limitMinX\<close>, at 0.33 of the original width, and left alone above it; with both sides
  disabled it is left alone. Over any number of calls the upper X bound never grows.
\<close>

theorem compress_contracts:
  assumes "animType s = COMPRESS"
  shows "limitMaxX (originalBounds s)
           = vx (minV (originalBounds s))
               + 0.67 * (vx (maxV (originalBounds s)) - vx (minV (originalBounds s))) \<and>
         limitMinX (originalBounds s)
           = vx (minV (originalBounds s))
               + 0.33 * (vx (maxV (originalBounds s)) - vx (minV (originalBounds s))) \<and>
         (limitMaxX (originalBounds s) \<le> vx (maxV (bounds s)) \<longrightarrow>
            vx (maxV (bounds (stepBoundsAnimation s))) = vx (maxV (bounds s)) - 0.25) \<and>
         (vx (maxV (bounds s)) < limitMaxX (originalBounds s) \<longrightarrow>
            vx (maxV (bounds (stepBoundsAnimation s))) = vx (maxV (bounds s))) \<and>
         (animBothSides s \<and> vx (minV (bounds s)) \<le> limitMinX (originalBounds s) \<longrightarrow>
            vx (minV (bounds (stepBoundsAnimation s))) = vx (minV (bounds s)) + 0.25) \<and>
         (animBothSides s \<and> limitMinX (originalBounds s) < vx (minV (bounds s)) \<longrightarrow>
            vx (minV (bounds (stepBoundsAnimation s))) = vx (minV (bounds s))) \<and>
         (\<not> animBothSides s \<longrightarrow>
            vx (minV (bounds (stepBoundsAnimation s))) = vx (minV (bounds s))) \<and>
         (\<forall>n. vx (maxV (bounds ((stepBoundsAnimation ^^ Suc n) s)))
                \<le> vx (maxV (bounds ((stepBoundsAnimation ^^ n) s))))"
proof -
  have one: "bounds (stepBoundsAnimation s) = bounds (compress s)"
    using assms by (rule stepBoundsAnimation_compress)
  have mono: "vx (maxV (bounds ((stepBoundsAnimation ^^ Suc n) s)))
                \<le> vx (maxV (bounds ((stepBoundsAnimation ^^ n) s)))" for n
  proof -
    have "animType ((stepBoundsAnimation ^^ n) s) = COMPRESS"
      using assms by (simp add: funpow_keeps)
    then show ?thesis
      using compress_max_le [of "(stepBoundsAnimation ^^ n) s"] by simp
  qed
  show ?thesis
    using mono by (simp add: one compress_x limit_values)
qed

lemma compressSim_fields:
  "animType compressSim = COMPRESS"
  "animBothSides compressSim = False"
  "originalBounds compressSim = exampleBounds"
  "bounds compressSim = exampleBounds"
  by (simp_all add: compressSim_def exampleSim_fields)

text \<open>C5 at the example simulation under \<open>COMPRESS\<close>: original X extent \<open>0 .. 300\<close>, limit
  201, first call lowers the upper bound to 299.75.\<close>

theorem compress_contracts_witness:
  "animType compressSim = COMPRESS \<and>
   limitMaxX (originalBounds compressSim) = 201 \<and>
   limitMaxX (originalBounds compressSim) \<le> vx (maxV (bounds compressSim)) \<and>
   vx (maxV (bounds (stepBoundsAnimation compressSim))) = 300 - 0.25 \<and>
   \<not> animBothSides compressSim \<and>
   vx (minV (bounds (stepBoundsAnimation compressSim))) = 0"
  using compress_contracts [of compressSim]
  by (simp add: compressSim_fields exampleBounds_x)

text \<open>
  C5 as stated fails: from the original X extent \<open>0 .. 300\<close> the upper bound reaches 200.75
  after 397 calls and stays there at the 398th, although 200.75 is above 2/3 of the
  original width (200): the contraction stops at 201, the floor the code computes.
\<close>

theorem compress_stalls_above_two_thirds:
  "vx (maxV (bounds ((stepBoundsAnimation ^^ 397) compressSim))) = 200.75 \<and>
   vx (maxV (bounds ((stepBoundsAnimation ^^ 398) compressSim))) = 200.75 \<and>
   vx (minV (originalBounds compressSim))
     + 2 / 3 * (vx (maxV (originalBounds compressSim)) - vx (minV (originalBounds compressSim)))
     = 200"
proof -
  have lim: "limitMaxX exampleBounds = 201"
    by (simp add: limit_values exampleBounds_x)
  have "\<forall>k<397. limitMaxX (originalBounds compressSim)
                   \<le> vx (maxV (bounds compressSim)) - 0.25 * real k"
  proof (intro allI impI)
    fix k :: nat
    assume "k < 397"
    then have "real k \<le> 396" by simp
    then show "limitMaxX (originalBounds compressSim)
                 \<le> vx (maxV (bounds compressSim)) - 0.25 * real k"
      by (simp add: compressSim_fields lim exampleBounds_x)
  qed
  then have a: "vx (maxV (bounds ((stepBoundsAnimation ^^ 397) compressSim)))
                  = vx (maxV (bounds compressSim)) - 0.25 * real (397::nat)"
    using compressSim_fields(1) by (rule compress_funpow_max [rotated])
  then have a': "vx (maxV (bounds ((stepBoundsAnimation ^^ 397) compressSim))) = 200.75"
    by (simp add: compressSim_fields exampleBounds_x)
  let ?t = "(stepBoundsAnimation ^^ 397) compressSim"
  have t: "animType ?t = COMPRESS" "originalBounds ?t = exampleBounds"
    by (simp_all only: funpow_keeps compressSim_fields)
  have e: "(398::nat) = Suc 397"
    by simp
  have "(stepBoundsAnimation ^^ 398) compressSim = stepBoundsAnimation ?t"
    unfolding e by (simp only: funpow.simps o_apply)
  then have b: "vx (maxV (bounds ((stepBoundsAnimation ^^ 398) compressSim))) = 200.75"
    using a' t by (simp add: stepBoundsAnimation_compress compress_x lim)
  show ?thesis
    using a' b by (simp add: compressSim_fields exampleBounds_x)
qed

subsection \<open>Sine wave\<close>

text \<open>Two bounds on \<open>pi\<close>, from \<open>sin (pi / 6) = 1 / 2\<close>: \<open>sin x \<le> x\<close> gives the lower one,
  the Maclaurin bound of the sine with five terms the upper one.\<close>

lemma pi_ge_3: "3 \<le> pi"
proof -
  have "sin (pi / 6) \<le> pi / 6"
    by (rule sin_x_le_x) simp
  then show ?thesis
    by (simp add: sin_30)
qed

lemma pi_less_225_64: "pi < 225 / 64"
proof (rule ccontr)
  assume "\<not> pi < 225 / 64"
  then have lo: "75 / 128 \<le> pi / 6"
    by simp
  have hi: "pi / 6 \<le> 2 / 3"
    using pi_less_4 by simp
  have nonneg: "0 \<le> pi / 6"
    by simp
  have "\<bar>sin (pi / 6) - (\<Sum>m<5. sin_coeff m * (pi / 6) ^ m)\<bar> \<le> inverse (fact 5) * \<bar>pi / 6\<bar> ^ 5"
    by (rule Maclaurin_sin_bound)
  moreover have "(\<Sum>m<5. sin_coeff m * (pi / 6) ^ m) = pi / 6 - (pi / 6) ^ 3 / 6"
    by (simp add: sin_coeff_def lessThan_nat_numeral fact_numeral)
  moreover have "inverse (fact 5) * \<bar>pi / 6\<bar> ^ 5 = (pi / 6) ^ 5 / 120"
    by (simp add: fact_numeral)
  ultimately have "\<bar>1 / 2 - (pi / 6 - (pi / 6) ^ 3 / 6)\<bar> \<le> (pi / 6) ^ 5 / 120"
    by (simp only: sin_30)
  then have bound: "pi / 6 - (pi / 6) ^ 3 / 6 - (pi / 6) ^ 5 / 120 \<le> 1 / 2"
    by linarith
  have c3: "(pi / 6) ^ 3 \<le> (2 / 3) ^ 3"
    using nonneg hi by (rule power_mono [rotated])
  have c5: "(pi / 6) ^ 5 \<le> (2 / 3) ^ 5"
    using nonneg hi by (rule power_mono [rotated])
  have "(2 / 3 :: real) ^ 3 = 8 / 27" and "(2 / 3 :: real) ^ 5 = 32 / 243"
    by (simp_all add: power_divide)
  then show False
    using lo bound c3 c5 by linarith
qed

lemma sin_256_nonzero: "sin (pi * (256 * (pi / 180))) \<noteq> 0"
proof
  assume "sin (pi * (256 * (pi / 180))) = 0"
  then obtain i :: int where "pi * (256 * (pi / 180)) = real_of_int i * pi"
    by (auto simp: sin_zero_iff_int2)
  then have i: "real_of_int i = 64 * pi / 45"
    by simp
  have "4 < real_of_int i" and "real_of_int i < 5"
    using pi_ge_3 pi_less_225_64 by (simp_all add: i)
  then have "4 < i" and "i < 5"
    by linarith+
  then show False
    by simp
qed

lemma frame_plus_720:
  assumes "(f :: 32 word) \<le> 4294966575"
  shows "(f + 720) mod 720 = f mod 720"
proof -
  have le: "unat f \<le> 4294966575"
    using assms by (simp add: word_le_nat_alt)
  have "unat (f + 720) = unat f + unat (720 :: 32 word)"
    by (rule unat_add_lem [THEN iffD1]) (use le in simp)
  then have "unat ((f + 720) mod 720) = unat (f mod 720)"
    by (simp add: unat_mod)
  then show ?thesis
    by (simp add: word_unat_eq_iff)
qed


lemma atFrame_simps [simp]:
  "animFrameNumber (atFrame f s) = f"
  "animType (atFrame f s) = animType s"
  "animAmp (atFrame f s) = animAmp s"
  "animPeriod (atFrame f s) = animPeriod s"
  "dt (atFrame f s) = dt s"
  "originalBounds (atFrame f s) = originalBounds s"
  "bounds (atFrame f s) = bounds s"
  "animBothSides (atFrame f s) = animBothSides s"
  by (simp_all add: atFrame_def)

lemma stepBoundsAnimation_sine:
  "animType s = SINE_WAVE
     \<Longrightarrow> maxXOffset s = sineValue (animAmp s) (animPeriod s) (animFrameNumber s)"
  by (simp add: maxXOffset_def stepBoundsAnimation_def Let_def)

lemma sineValue_mod:
  "f mod 720 = g mod 720 \<Longrightarrow> sineValue amp period f = sineValue amp period g"
  by (simp add: sineValue_def)

lemma sineValue_0: "sineValue amp period 0 = 0"
  by (simp add: sineValue_def ofDegToRad_def)

text \<open>
  C7, as the code has it. Under \<open>SINE_WAVE\<close> (for any amplitude and period, so also for
  amplitude 10 and period 1) the offset applied to the upper X bound at animation frame
  0 is \<open>amplitude * sin 0 = 0\<close>. The offset depends on the frame counter only through
  its remainder modulo 720, so the offset at frame \<open>f + 720\<close> is the offset at frame \<open>f\<close>
  for every \<open>f\<close> up to \<open>2 ^ 32 - 721\<close>, that is as long as \<open>f + 720\<close> does not wrap the
  32-bit counter.
\<close>

theorem sine_offset_periodic:
  assumes "animType s = SINE_WAVE"
  shows "maxXOffset (atFrame 0 s) = animAmp s * sin 0 \<and>
         maxXOffset (atFrame 0 s) = 0 \<and>
         (\<forall>f g. f mod 720 = g mod 720 \<longrightarrow>
            maxXOffset (atFrame f s) = maxXOffset (atFrame g s)) \<and>
         (\<forall>f. f \<le> 4294966575 \<longrightarrow>
            maxXOffset (atFrame (f + 720) s) = maxXOffset (atFrame f s))"
proof -
  have off: "maxXOffset (atFrame f s) = sineValue (animAmp s) (animPeriod s) f" for f
    using assms by (simp add: stepBoundsAnimation_sine)
  have zero: "maxXOffset (atFrame 0 s) = 0"
    by (simp add: off sineValue_0)
  have same: "maxXOffset (atFrame f s) = maxXOffset (atFrame g s)"
    if "f mod 720 = g mod 720" for f g
    unfolding off using that by (rule sineValue_mod)
  have later: "maxXOffset (atFrame (f + 720) s) = maxXOffset (atFrame f s)"
    if "f \<le> 4294966575" for f
    using that by (intro same frame_plus_720)
  show ?thesis
  proof (intro conjI allI impI)
    show "maxXOffset (atFrame 0 s) = animAmp s * sin 0"
      using zero by simp
    show "maxXOffset (atFrame 0 s) = 0"
      by (rule zero)
    show "maxXOffset (atFrame f s) = maxXOffset (atFrame g s)"
      if "f mod 720 = g mod 720" for f g
      using that by (rule same)
    show "maxXOffset (atFrame (f + 720) s) = maxXOffset (atFrame f s)"
      if "f \<le> 4294966575" for f
      using that by (rule later)
  qed
qed

text \<open>C7 at the example simulation (sine wave, amplitude 10, period 1): frames 0 and
  720, and frames 30 and 750.\<close>

theorem sine_offset_periodic_witness:
  "animType exampleSim = SINE_WAVE \<and> animAmp exampleSim = 10 \<and> animPeriod exampleSim = 1 \<and>
   maxXOffset (atFrame 0 exampleSim) = 0 \<and>
   (720 :: 32 word) mod 720 = 0 mod 720 \<and>
   maxXOffset (atFrame 720 exampleSim) = maxXOffset (atFrame 0 exampleSim) \<and>
   (30 :: 32 word) \<le> 4294966575 \<and>
   maxXOffset (atFrame (30 + 720) exampleSim) = maxXOffset (atFrame 30 exampleSim)"
proof -
  have a: "(720 :: 32 word) mod 720 = 0 mod 720"
    by simp
  have b: "(30 :: 32 word) \<le> 4294966575"
    by simp
  have t: "animType exampleSim = SINE_WAVE"
    by (simp add: exampleSim_fields)
  note th = sine_offset_periodic [OF t]
  have c: "maxXOffset (atFrame 720 exampleSim) = maxXOffset (atFrame 0 exampleSim)"
    using th a by blast
  have d: "maxXOffset (atFrame (30 + 720) exampleSim) = maxXOffset (atFrame 30 exampleSim)"
    using th b by blast
  have e: "maxXOffset (atFrame 0 exampleSim) = 0"
    using th by blast
  show ?thesis
    using a b c d e by (simp add: exampleSim_fields)
qed

text \<open>
  C7 as stated fails for the last 720 values of the counter: \<open>2 ^ 32\<close> is not a multiple
  of 720. At frame \<open>f = 2 ^ 32 - 720\<close> the remainder is 256 and the offset
  \<open>10 * sin (pi * (256 * pi / 180))\<close> is not zero, while frame \<open>f + 720\<close> is frame 0 again,
  with offset 0.
\<close>

theorem sine_offset_breaks_at_wrap:
  "maxXOffset (atFrame (4294966576 + 720) exampleSim) = 0 \<and>
   maxXOffset (atFrame 4294966576 exampleSim) = 10 * sin (pi * (256 * (pi / 180))) \<and>
   maxXOffset (atFrame (4294966576 + 720) exampleSim) \<noteq> maxXOffset (atFrame 4294966576 exampleSim)"
proof -
  have off: "maxXOffset (atFrame f exampleSim) = sineValue 10 1 f" for f
    by (simp add: stepBoundsAnimation_sine exampleSim_fields)
  have w: "(4294966576 + 720 :: 32 word) = 0"
    by simp
  have "unat ((4294966576 :: 32 word) mod 720) = unat (256 :: 32 word)"
    by (simp add: unat_mod)
  then have m: "(4294966576 :: 32 word) mod 720 = 256"
    by (simp only: word_unat_eq_iff)
  have a: "sineValue 10 1 (4294966576 + 720) = 0"
    unfolding w by (rule sineValue_0)
  have b: "sineValue 10 1 4294966576 = 10 * sin (pi * (256 * (pi / 180)))"
    unfolding sineValue_def m by (simp add: ofDegToRad_def)
  show ?thesis
    unfolding off a b using sin_256_nonzero by simp
qed

end
